theory Spec2Isabelle
  imports Main "HOL-Library.Word" "HOL-Library.Signed_Division"
begin

unbundle bit_operations_syntax

section \<open>Go values, errors and functions, as webview.go sees them through reflection\<close>

text \<open>
  A value of the Go type \<open>interface{}\<close>: the nil interface, a Go string (the only
  concrete type webview.go itself boxes, in \<open>jsString(err.Error())\<close> and
  \<open>jsString(name)\<close>), or any other dynamic value, of a type \<open>'v\<close> left open.
  A nil pointer stored in an interface is not \<open>nil\<close>: it is a \<open>dyn\<close> value.
\<close>

datatype 'v iface = nil | string_val string | dyn 'v

text \<open>
  Values of the Go type \<open>error\<close> that \<open>callbinding\<close> can return. Go compares
  errors by identity, so the constructors keep where an error was made:
  \<open>errors.New\<close> in webview.go itself, an error of \<open>encoding/json\<close>, or a value a
  bound function returned, asserted to \<open>error\<close>.
\<close>

datatype 'v error = errors_New string | json_error string | value_error "'v iface"

text \<open>A \<open>reflect.Value\<close> among the results of \<open>Call\<close>: its static type and its content.\<close>

record ('ty, 'v) Value =
  Type :: 'ty
  Interface :: "'v iface"

text \<open>
  A Go function value as \<open>reflect\<close> describes it: its signature, and the function
  itself, a closure of a type \<open>'c\<close> left open.
\<close>

record ('ty, 'c) func =
  IsVariadic :: bool
  In :: "'ty list"
  Out :: "'ty list"
  Code :: 'c

definition NumIn :: "('ty, 'c) func \<Rightarrow> int" where
  "NumIn f = int (length (In f))"

definition NumOut :: "('ty, 'c) func \<Rightarrow> int" where
  "NumOut f = int (length (Out f))"

text \<open>
  \<open>v.Call(args)\<close>. What running a closure does is a parameter \<open>invoke\<close>: from the
  arguments and the state before (of a type \<open>'s\<close>: below, the WebView together with
  everything outside it) it gives the values returned and the state after. A bound
  function may do anything to both, \<open>Bind\<close> or \<open>Dispatch\<close> on the WebView included,
  and \<open>invoke\<close> stands for everything that happens while it runs; it is taken to
  return. The results come back as \<open>reflect.Value\<close>s carrying the declared result types.
\<close>

definition reflect_Call ::
  "('c \<Rightarrow> 'v list \<Rightarrow> 's \<Rightarrow> 'v iface list \<times> 's) \<Rightarrow> ('ty, 'c) func \<Rightarrow> 'v list \<Rightarrow> 's \<Rightarrow>
     ('ty, 'v) Value list \<times> 's" where
  "reflect_Call invoke f args s =
     (case invoke (Code f) args s of
        (rs, s') \<Rightarrow> (map2 (\<lambda>T r. \<lparr>Type = T, Interface = r\<rparr>) (Out f) rs, s'))"

text \<open>\<open>f interface{}\<close> as \<open>Bind\<close> receives it: a function, or a value of another kind.\<close>

datatype ('ty, 'c, 'v) bindable = Func "('ty, 'c) func" | NotFunc "'v iface"

text \<open>Go's \<open>int\<close> and \<open>uintptr\<close> (64 bits on windows/amd64) and \<open>int32\<close>.\<close>

type_synonym go_int = "64 word"
type_synonym uintptr = "64 word"
type_synonym int32 = "32 word"

text \<open>The request envelope; \<open>json.RawMessage\<close> is the undecoded text of a parameter.\<close>

record rpcMessage =
  ID :: go_int
  Method :: string
  Params :: "string list"

section \<open>The libraries webview.go calls\<close>

text \<open>
  The standard library is not part of the repository; its functions are parameters.
  Library errors are given by their message.
  \<^item> \<open>json_Unmarshal_rpcMessage\<close>: \<open>json.Unmarshal([]byte(msg), &d)\<close> for the envelope;
  \<^item> \<open>json_Unmarshal raw T\<close>: \<open>json.Unmarshal(raw, reflect.New(T).Interface())\<close> and
    the decoded element;
  \<^item> \<open>json_Marshal\<close>: \<open>json.Marshal(v)\<close>;
  \<^item> \<open>strconv_Itoa\<close>; \<open>Elem\<close> and \<open>Implements_error\<close> of \<open>reflect.Type\<close>;
  \<^item> \<open>Error_method\<close>: the \<open>Error()\<close> method of a dynamic value.
\<close>

record ('ty, 'v) golib =
  json_Unmarshal_rpcMessage :: "string \<Rightarrow> string + rpcMessage"
  json_Unmarshal :: "string \<Rightarrow> 'ty \<Rightarrow> string + 'v"
  json_Marshal :: "'v iface \<Rightarrow> string + string"
  strconv_Itoa :: "go_int \<Rightarrow> string"
  Elem :: "'ty \<Rightarrow> 'ty"
  Implements_error :: "'ty \<Rightarrow> bool"
  Error_method :: "'v iface \<Rightarrow> string"

text \<open>
  Package \<open>internal/w32\<close>, the embedded browser (package \<open>edge\<close>, but for
  \<open>Resize\<close>) and \<open>log\<close> are outside the sources at hand too: their constants are
  parameters, and each call is a parameter acting on the outside state \<open>'x\<close>, where
  the \<open>Chromium\<close> behind \<open>w.Browser\<close> lives with its fields \<open>controller\<close> and
  \<open>hwnd\<close>. A call that fills a struct through a pointer takes the struct and returns
  it.
\<close>

record Point =
  X :: int32
  Y :: int32

record Rect =
  Left :: int32
  Top :: int32
  Right :: int32
  Bottom :: int32

record 'x sys =
  log_Printf :: "string \<Rightarrow> 'x \<Rightarrow> 'x"
  Browser_Init :: "string \<Rightarrow> 'x \<Rightarrow> 'x"
  Browser_Eval :: "string \<Rightarrow> 'x \<Rightarrow> 'x"
  Chromium_controller_nil :: "'x \<Rightarrow> bool"
  Chromium_hwnd :: "'x \<Rightarrow> uintptr"
  User32GetClientRect :: "uintptr \<Rightarrow> Rect \<Rightarrow> 'x \<Rightarrow> Rect \<times> 'x"
  PutBounds :: "Rect \<Rightarrow> 'x \<Rightarrow> 'x"
  User32PostThreadMessageW :: "uintptr \<Rightarrow> uintptr \<Rightarrow> uintptr \<Rightarrow> uintptr \<Rightarrow> 'x \<Rightarrow> 'x"
  User32GetWindowLongPtrW :: "uintptr \<Rightarrow> uintptr \<Rightarrow> 'x \<Rightarrow> uintptr \<times> 'x"
  User32SetWindowLongPtrW :: "uintptr \<Rightarrow> uintptr \<Rightarrow> uintptr \<Rightarrow> 'x \<Rightarrow> 'x"
  User32GetSystemMetrics :: "uintptr \<Rightarrow> 'x \<Rightarrow> uintptr \<times> 'x"
  User32GetWindowRect :: "uintptr \<Rightarrow> Rect \<Rightarrow> 'x \<Rightarrow> (uintptr \<times> Rect) \<times> 'x"
  User32MoveWindow ::
    "uintptr \<Rightarrow> uintptr \<Rightarrow> uintptr \<Rightarrow> uintptr \<Rightarrow> uintptr \<Rightarrow> uintptr \<Rightarrow> 'x \<Rightarrow> 'x"
  User32AdjustWindowRect :: "Rect \<Rightarrow> uintptr \<Rightarrow> uintptr \<Rightarrow> 'x \<Rightarrow> Rect \<times> 'x"
  User32SetWindowPos ::
    "uintptr \<Rightarrow> uintptr \<Rightarrow> uintptr \<Rightarrow> uintptr \<Rightarrow> uintptr \<Rightarrow> uintptr \<Rightarrow> uintptr \<Rightarrow> 'x \<Rightarrow> 'x"
  WMApp :: uintptr
  GWLStyle :: go_int
  WSThickFrame :: uintptr
  WSMaximizeBox :: uintptr
  WSOverlappedWindow :: uintptr
  SWPNoZOrder :: uintptr
  SWPNoActivate :: uintptr
  SWPNoMove :: uintptr
  SWPFrameChanged :: uintptr
  SystemMetricsCxScreen :: uintptr
  SystemMetricsCyScreen :: uintptr

section \<open>The WebView\<close>

text \<open>
  The fields of \<open>WebView\<close> that webview.go reads and writes. \<open>Browser\<close> lives in the
  outside state. The mutex \<open>m\<close> has no field: every section of the source between
  \<open>Lock\<close> and \<open>Unlock\<close> is one step of the model, which is what the mutex provides.
  \<open>bindings\<close> holds functions only, since \<open>Bind\<close>, its one writer, stores nothing else.
  A queued \<open>func()\<close> is a value of a type \<open>'t\<close> of closures.
\<close>

record ('t, 'ty, 'c) WebView =
  HWND :: uintptr
  mainthread :: uintptr
  maxsz :: Point
  minsz :: Point
  bindings :: "string \<rightharpoonup> ('ty, 'c) func"
  dispatchq :: "'t list"

text \<open>The WebView and the state of everything outside it.\<close>

type_synonym ('t, 'ty, 'c, 'x) state = "('t, 'ty, 'c) WebView \<times> 'x"

text \<open>
  The closures webview.go itself queues are all \<open>func() { w.Eval(js) }\<close>; the
  application may queue others through \<open>Dispatch\<close>.
\<close>

datatype 'u task = Eval_closure string | other_closure 'u

definition jsString :: "('ty, 'v) golib \<Rightarrow> 'v iface \<Rightarrow> string" where
  "jsString L v = (case json_Marshal L v of Inl err \<Rightarrow> [] | Inr b \<Rightarrow> b)"

fun Error :: "('ty, 'v) golib \<Rightarrow> 'v error \<Rightarrow> string" where
  "Error L (errors_New m) = m"
| "Error L (json_error m) = m"
| "Error L (value_error v) = Error_method L v"

definition Eval ::
  "'x sys \<Rightarrow> string \<Rightarrow> ('t, 'ty, 'c, 'x) state \<Rightarrow> ('t, 'ty, 'c, 'x) state" where
  "Eval S js = (\<lambda>(w, x). (w, Browser_Eval S js x))"

definition Init ::
  "'x sys \<Rightarrow> string \<Rightarrow> ('t, 'ty, 'c, 'x) state \<Rightarrow> ('t, 'ty, 'c, 'x) state" where
  "Init S js = (\<lambda>(w, x). (w, Browser_Init S js x))"

definition Dispatch ::
  "'x sys \<Rightarrow> 't \<Rightarrow> ('t, 'ty, 'c, 'x) state \<Rightarrow> ('t, 'ty, 'c, 'x) state" where
  "Dispatch S f = (\<lambda>(w, x).
     (w\<lparr>dispatchq := dispatchq w @ [f]\<rparr>,
      User32PostThreadMessageW S (mainthread w) (WMApp S) 0 0 x))"

section \<open>callbinding\<close>

text \<open>
  The type a parameter at index \<open>i\<close> is decoded into: the element type of the last
  (slice) parameter from the variadic position on, the declared type otherwise.
\<close>

definition param_type :: "('ty, 'v) golib \<Rightarrow> ('ty, 'c) func \<Rightarrow> int \<Rightarrow> 'ty" where
  "param_type L f i =
     (if IsVariadic f \<and> i \<ge> NumIn f - 1
      then Elem L (In f ! nat (NumIn f - 1))
      else In f ! nat i)"

text \<open>
  The loop \<open>for i := range d.Params\<close>, from index \<open>i\<close> on, with the arguments decoded
  so far: the first parameter that does not decode ends it with the decoder's error.
\<close>

fun decode_params ::
  "('ty, 'v) golib \<Rightarrow> ('ty, 'c) func \<Rightarrow> string list \<Rightarrow> int \<Rightarrow> 'v list \<Rightarrow> 'v error + 'v list" where
  "decode_params L f [] i args = Inr args"
| "decode_params L f (p # ps) i args =
     (case json_Unmarshal L p (param_type L f i) of
        Inl err \<Rightarrow> Inl (json_error err)
      | Inr arg \<Rightarrow> decode_params L f ps (i + 1) (args @ [arg]))"

text \<open>The \<open>switch len(res)\<close> that turns the results of the call into \<open>(interface{}, error)\<close>.\<close>

fun normalize :: "('ty, 'v) golib \<Rightarrow> ('ty, 'v) Value list \<Rightarrow> 'v iface \<times> 'v error option" where
  "normalize L [] = (nil, None)"
| "normalize L [r0] =
     (if Implements_error L (Type r0)
      then (if Interface r0 \<noteq> nil then (nil, Some (value_error (Interface r0))) else (nil, None))
      else (Interface r0, None))"
| "normalize L [r0, r1] =
     (if \<not> Implements_error L (Type r1)
      then (nil, Some (errors_New ''second return value must be an error''))
      else if Interface r1 = nil then (Interface r0, None)
      else (Interface r0, Some (value_error (Interface r1))))"
| "normalize L res = (nil, Some (errors_New ''unexpected number of return values''))"

text \<open>
  \<open>callbinding\<close> returns its pair \<open>(interface{}, error)\<close> (\<open>None\<close> for a nil error) and
  the state it leaves.
\<close>

definition callbinding ::
  "('ty, 'v) golib \<Rightarrow>
   ('c \<Rightarrow> 'v list \<Rightarrow> ('t, 'ty, 'c, 'x) state \<Rightarrow> 'v iface list \<times> ('t, 'ty, 'c, 'x) state) \<Rightarrow>
   rpcMessage \<Rightarrow> ('t, 'ty, 'c, 'x) state \<Rightarrow>
     ('v iface \<times> 'v error option) \<times> ('t, 'ty, 'c, 'x) state" where
  "callbinding L invoke d = (\<lambda>(w, x).
     (case bindings w (Method d) of
        None \<Rightarrow> ((nil, None), (w, x))
      | Some f \<Rightarrow>
          let isVariadic = IsVariadic f;
              numIn = NumIn f
          in if (isVariadic \<and> int (length (Params d)) < numIn - 1)
                \<or> (\<not> isVariadic \<and> int (length (Params d)) \<noteq> numIn)
             then ((nil, Some (errors_New ''function arguments mismatch'')), (w, x))
             else (case decode_params L f (Params d) 0 [] of
                     Inl err \<Rightarrow> ((nil, Some err), (w, x))
                   | Inr args \<Rightarrow>
                       (case reflect_Call invoke f args (w, x) of
                          (res, s') \<Rightarrow> (normalize L res, s')))))"

section \<open>msgcb\<close>

definition reject_js :: "('ty, 'v) golib \<Rightarrow> string \<Rightarrow> string \<Rightarrow> string" where
  "reject_js L id' msg =
     ''window._rpc['' @ id' @ ''].reject('' @ jsString L (string_val msg)
       @ ''); window._rpc['' @ id' @ ''] = undefined''"

definition resolve_js :: "string \<Rightarrow> string \<Rightarrow> string" where
  "resolve_js id' b =
     ''window._rpc['' @ id' @ ''].resolve('' @ b @ ''); window._rpc['' @ id' @ ''] = undefined''"

definition msgcb ::
  "('ty, 'v) golib \<Rightarrow> 'x sys \<Rightarrow>
   ('c \<Rightarrow> 'v list \<Rightarrow> ('u task, 'ty, 'c, 'x) state \<Rightarrow> 'v iface list \<times> ('u task, 'ty, 'c, 'x) state) \<Rightarrow>
   string \<Rightarrow> ('u task, 'ty, 'c, 'x) state \<Rightarrow> ('u task, 'ty, 'c, 'x) state" where
  "msgcb L S invoke msg = (\<lambda>(w, x).
     (case json_Unmarshal_rpcMessage L msg of
        Inl err \<Rightarrow> (w, log_Printf S (''invalid RPC message: '' @ err) x)
      | Inr d \<Rightarrow>
          let id' = strconv_Itoa L (ID d)
          in (case callbinding L invoke d (w, x) of
                ((res, Some err), s') \<Rightarrow>
                  Dispatch S (Eval_closure (reject_js L id' (Error L err))) s'
              | ((res, None), s') \<Rightarrow>
                  (case json_Marshal L res of
                     Inl err \<Rightarrow> Dispatch S (Eval_closure (reject_js L id' err)) s'
                   | Inr b \<Rightarrow> Dispatch S (Eval_closure (resolve_js id' b)) s'))))"

section \<open>Bind\<close>

text \<open>The raw string literal of the injected script, with its line breaks and tabs.\<close>

definition nl :: string where
  "nl = [CHR 0x0A]"

definition tab :: string where
  "tab = [CHR 0x09]"

definition bind_js :: string where
  "bind_js =
      nl @ tab @ tab @ ''var RPC = window._rpc = (window._rpc || {nextSeq: 1});'' @
      nl @ tab @ tab @ ''window[name] = function() {'' @
      nl @ tab @ tab @ ''  var seq = RPC.nextSeq++;'' @
      nl @ tab @ tab @ ''  var promise = new Promise(function(resolve, reject) {'' @
      nl @ tab @ tab @ tab @ ''RPC[seq] = {'' @
      nl @ tab @ tab @ tab @ ''  resolve: resolve,'' @
      nl @ tab @ tab @ tab @ ''  reject: reject,'' @
      nl @ tab @ tab @ tab @ ''};'' @
      nl @ tab @ tab @ ''  });'' @
      nl @ tab @ tab @ ''  window.external.invoke(JSON.stringify({'' @
      nl @ tab @ tab @ tab @ ''id: seq,'' @
      nl @ tab @ tab @ tab @ ''method: name,'' @
      nl @ tab @ tab @ tab @ ''params: Array.prototype.slice.call(arguments),'' @
      nl @ tab @ tab @ ''  }));'' @
      nl @ tab @ tab @ ''  return promise;'' @
      nl @ tab @ tab @ ''}'' @
      nl @ tab @ ''})()''"

text \<open>\<open>Bind\<close> returns its \<open>error\<close> (\<open>None\<close> for nil) and the state it leaves.\<close>

definition Bind ::
  "('ty, 'v) golib \<Rightarrow> 'x sys \<Rightarrow> string \<Rightarrow> ('ty, 'c, 'v) bindable \<Rightarrow>
     ('t, 'ty, 'c, 'x) state \<Rightarrow> 'v error option \<times> ('t, 'ty, 'c, 'x) state" where
  "Bind L S name f = (\<lambda>(w, x).
     (case f of
        NotFunc v \<Rightarrow> (Some (errors_New ''only functions can be bound''), (w, x))
      | Func fn \<Rightarrow>
          if NumOut fn > 2
          then (Some (errors_New ''function may only return a value or a value+error''), (w, x))
          else (None,
                Init S (''(function() { var name = '' @ jsString L (string_val name) @ '';'' @ bind_js)
                  (w\<lparr>bindings := (bindings w)(name \<mapsto> fn)\<rparr>, x))))"

section \<open>Run: the branch for the wake message\<close>

text \<open>
  \<open>for _, v := range q { v() }\<close>. What calling a closure does is a parameter \<open>call\<close>:
  a closure may do anything to the WebView and to the outside state, and \<open>call v\<close>
  stands for everything that happens to both while \<open>v\<close> runs.
\<close>

fun range_q :: "('t \<Rightarrow> 's \<Rightarrow> 's) \<Rightarrow> 't list \<Rightarrow> 's \<Rightarrow> 's" where
  "range_q call [] s = s"
| "range_q call (v # q) s = range_q call q (call v s)"

text \<open>
  The body of \<open>if msg.Message == w32.WMApp\<close>: under the lock, \<open>q\<close> becomes a copy of
  the queue and the queue a new empty slice; after the unlock the copy is run.
\<close>

definition Run_WMApp ::
  "('t \<Rightarrow> ('t, 'ty, 'c, 'x) state \<Rightarrow> ('t, 'ty, 'c, 'x) state) \<Rightarrow>
     ('t, 'ty, 'c, 'x) state \<Rightarrow> ('t, 'ty, 'c, 'x) state" where
  "Run_WMApp call = (\<lambda>(w, x).
     let q = [] @ dispatchq w;
         w' = w\<lparr>dispatchq := []\<rparr>
     in range_q call q (w', x))"

text \<open>
  The closures a drain pass leaves behind: \<open>enq v s\<close> being the closures handed to
  \<open>Dispatch\<close> while \<open>v\<close> runs from the state \<open>s\<close>, these are all of them, in order, along
  the run of the list \<open>q\<close> from \<open>s\<close>.
\<close>

fun enqueued :: "('t \<Rightarrow> 's \<Rightarrow> 's) \<Rightarrow> ('t \<Rightarrow> 's \<Rightarrow> 't list) \<Rightarrow> 't list \<Rightarrow> 's \<Rightarrow> 't list" where
  "enqueued call enq [] s = []"
| "enqueued call enq (v # q) s = enq v s @ enqueued call enq q (call v s)"

section \<open>SetSize\<close>

text \<open>\<open>func (e *Chromium) Resize()\<close>: the browser takes the bounds of the window's client area.\<close>

definition Resize :: "'x sys \<Rightarrow> 'x \<Rightarrow> 'x" where
  "Resize S x =
     (if Chromium_controller_nil S x then x
      else (case User32GetClientRect S (Chromium_hwnd S x)
                   \<lparr>Left = 0, Top = 0, Right = 0, Bottom = 0\<rparr> x of
              (bounds, x1) \<Rightarrow> PutBounds S bounds x1))"

text \<open>\<open>type Hint int\<close> and its constants, numbered by \<open>iota\<close>.\<close>

type_synonym Hint = go_int

definition HintNone :: Hint where "HintNone = 0"
definition HintFixed :: Hint where "HintFixed = 1"
definition HintMin :: Hint where "HintMin = 2"
definition HintMax :: Hint where "HintMax = 3"
definition HintCenter :: Hint where "HintCenter = 4"

text \<open>
  Conversions and division of Go integers: \<open>int32(n)\<close> keeps the low 32 bits,
  \<open>uintptr\<close> of an \<open>int32\<close> extends the sign, \<open>/\<close> truncates towards zero.
\<close>

definition int32_of_int :: "go_int \<Rightarrow> int32" where
  "int32_of_int n = ucast n"

definition uintptr_of_int32 :: "int32 \<Rightarrow> uintptr" where
  "uintptr_of_int32 n = scast n"

definition go_div :: "go_int \<Rightarrow> go_int \<Rightarrow> go_int" where
  "go_div a b = word_of_int (sint a sdiv sint b)"

definition SetSize ::
  "'x sys \<Rightarrow> go_int \<Rightarrow> go_int \<Rightarrow> Hint \<Rightarrow>
     ('t, 'ty, 'c, 'x) state \<Rightarrow> ('t, 'ty, 'c, 'x) state" where
  "SetSize S width height hints = (\<lambda>(w, x).
     let index = GWLStyle S in
     case User32GetWindowLongPtrW S (HWND w) index x of (style, x1) \<Rightarrow>
     let style' = (if hints = HintFixed
                   then style AND NOT (WSThickFrame S OR WSMaximizeBox S)
                   else style OR (WSThickFrame S OR WSMaximizeBox S));
         x2 = User32SetWindowLongPtrW S (HWND w) index style' x1
     in
     if hints = HintMax then
       (w\<lparr>maxsz := (maxsz w)\<lparr>X := int32_of_int width, Y := int32_of_int height\<rparr>\<rparr>, x2)
     else if hints = HintMin then
       (w\<lparr>minsz := (minsz w)\<lparr>X := int32_of_int width, Y := int32_of_int height\<rparr>\<rparr>, x2)
     else if hints = HintCenter then
       (case User32GetSystemMetrics S (SystemMetricsCxScreen S) x2 of (scrWidth, x3) \<Rightarrow>
        case User32GetSystemMetrics S (SystemMetricsCyScreen S) x3 of (scrHeight, x4) \<Rightarrow>
        case User32GetWindowRect S (HWND w) \<lparr>Left = 0, Top = 0, Right = 0, Bottom = 0\<rparr> x4 of
          ((ret, rect), x5) \<Rightarrow>
        if ret = 0 then (w, x5)
        else
          let rect' = rect\<lparr>Left := int32_of_int (go_div (scrWidth - width) 2),
                           Top := int32_of_int (go_div (scrHeight - height) 2)\<rparr>;
              x6 = User32MoveWindow S (HWND w)
                     (uintptr_of_int32 (Left rect')) (uintptr_of_int32 (Top rect'))
                     width height 1 x5
          in (w, Resize S x6))
     else
       (let r = \<lparr>Left = 0, Top = 0, Right = int32_of_int width, Bottom = int32_of_int height\<rparr> in
        case User32AdjustWindowRect S r (WSOverlappedWindow S) 0 x2 of (r', x3) \<Rightarrow>
        let x4 = User32SetWindowPos S (HWND w) 0
                   (uintptr_of_int32 (Left r')) (uintptr_of_int32 (Top r'))
                   (uintptr_of_int32 (Right r' - Left r')) (uintptr_of_int32 (Bottom r' - Top r'))
                   (SWPNoZOrder S OR SWPNoActivate S OR SWPNoMove S OR SWPFrameChanged S) x3
        in (w, Resize S x4)))"

section \<open>A small concrete instance\<close>

text \<open>
  Concrete types, values, library and outside world on which the theorems below are
  instantiated. The library functions are tables that agree with \<open>encoding/json\<close> and
  \<open>strconv\<close> on the few inputs used; the outside world is the list of the external
  effects so far.
\<close>

datatype gotype = T_int | T_string | T_error | T_chan | T_slice gotype

datatype goval = V_int int | V_error string | V_chan

datatype event =
  ev_log string | ev_init string | ev_eval string | ev_post uintptr uintptr | ev_call string
  | ev_run nat | ev_os string

definition msg_nope :: string where
  "msg_nope = ''{\"id\":1,\"method\":\"nope\",\"params\":[]}''"

definition msg_add :: string where
  "msg_add = ''{\"id\":7,\"method\":\"add\",\"params\":[2,3]}''"

definition msg_add_bad :: string where
  "msg_add_bad = ''{\"id\":7,\"method\":\"add\",\"params\":[2,\"x\"]}''"

definition msg_add_one :: string where
  "msg_add_one = ''{\"id\":7,\"method\":\"add\",\"params\":[2]}''"

definition msg_fail :: string where
  "msg_fail = ''{\"id\":2,\"method\":\"fail\",\"params\":[]}''"

definition msg_sum :: string where
  "msg_sum = ''{\"id\":3,\"method\":\"sum\",\"params\":[]}''"

definition msg_chan :: string where
  "msg_chan = ''{\"id\":4,\"method\":\"chan\",\"params\":[]}''"

definition msg_pair :: string where
  "msg_pair = ''{\"id\":5,\"method\":\"pair\",\"params\":[]}''"

definition msg_notify :: string where
  "msg_notify = ''{\"id\":6,\"method\":\"notify\",\"params\":[]}''"

definition msg_mimic :: string where
  "msg_mimic = ''{\"id\":8,\"method\":\"mimic\",\"params\":[]}''"

definition msg_malformed :: string where
  "msg_malformed = ''{\"id\":''"

definition demo_decode :: "string \<Rightarrow> string + rpcMessage" where
  "demo_decode s =
     (if s = msg_nope then Inr \<lparr>ID = 1, Method = ''nope'', Params = []\<rparr>
      else if s = msg_add then Inr \<lparr>ID = 7, Method = ''add'', Params = [''2'', ''3'']\<rparr>
      else if s = msg_add_bad then Inr \<lparr>ID = 7, Method = ''add'', Params = [''2'', ''\"x\"'']\<rparr>
      else if s = msg_add_one then Inr \<lparr>ID = 7, Method = ''add'', Params = [''2'']\<rparr>
      else if s = msg_fail then Inr \<lparr>ID = 2, Method = ''fail'', Params = []\<rparr>
      else if s = msg_sum then Inr \<lparr>ID = 3, Method = ''sum'', Params = []\<rparr>
      else if s = msg_chan then Inr \<lparr>ID = 4, Method = ''chan'', Params = []\<rparr>
      else if s = msg_pair then Inr \<lparr>ID = 5, Method = ''pair'', Params = []\<rparr>
      else if s = msg_notify then Inr \<lparr>ID = 6, Method = ''notify'', Params = []\<rparr>
      else if s = msg_mimic then Inr \<lparr>ID = 8, Method = ''mimic'', Params = []\<rparr>
      else Inl ''unexpected end of JSON input'')"

definition demo_unmarshal :: "string \<Rightarrow> gotype \<Rightarrow> string + goval" where
  "demo_unmarshal raw T =
     (if T = T_int \<and> raw = ''2'' then Inr (V_int 2)
      else if T = T_int \<and> raw = ''3'' then Inr (V_int 3)
      else if raw = ''true'' then Inl ''json: cannot unmarshal bool into Go value of type int''
      else Inl ''json: cannot unmarshal string into Go value of type int'')"

definition demo_marshal :: "goval iface \<Rightarrow> string + string" where
  "demo_marshal v =
     (case v of
        nil \<Rightarrow> Inr ''null''
      | string_val s \<Rightarrow> Inr (''\"'' @ s @ ''\"'')
      | dyn (V_int n) \<Rightarrow> Inr (if n = 5 then ''5'' else ''0'')
      | dyn (V_error m) \<Rightarrow> Inr ''{}''
      | dyn V_chan \<Rightarrow> Inl ''json: unsupported type: chan int'')"

definition demo_itoa :: "go_int \<Rightarrow> string" where
  "demo_itoa n =
     (if n = 1 then ''1'' else if n = 2 then ''2'' else if n = 3 then ''3''
      else if n = 4 then ''4'' else if n = 5 then ''5'' else if n = 6 then ''6''
      else if n = 7 then ''7'' else if n = 8 then ''8'' else ''0'')"

definition demo_lib :: "(gotype, goval) golib" where
  "demo_lib =
     \<lparr>json_Unmarshal_rpcMessage = demo_decode,
      json_Unmarshal = demo_unmarshal,
      json_Marshal = demo_marshal,
      strconv_Itoa = demo_itoa,
      Elem = (\<lambda>T. case T of T_slice U \<Rightarrow> U | _ \<Rightarrow> T),
      Implements_error = (\<lambda>T. T = T_error),
      Error_method = (\<lambda>v. case v of dyn (V_error m) \<Rightarrow> m | _ \<Rightarrow> [])\<rparr>"

definition demo_sys :: "event list sys" where
  "demo_sys =
     \<lparr>log_Printf = (\<lambda>m x. x @ [ev_log m]),
      Browser_Init = (\<lambda>js x. x @ [ev_init js]),
      Browser_Eval = (\<lambda>js x. x @ [ev_eval js]),
      Chromium_controller_nil = (\<lambda>x. False),
      Chromium_hwnd = (\<lambda>x. 1),
      User32GetClientRect = (\<lambda>h r x. (r, x @ [ev_os ''GetClientRect''])),
      PutBounds = (\<lambda>r x. x @ [ev_os ''PutBounds'']),
      User32PostThreadMessageW = (\<lambda>t m wp lp x. x @ [ev_post t m]),
      User32GetWindowLongPtrW = (\<lambda>h i x. (0, x @ [ev_os ''GetWindowLongPtrW''])),
      User32SetWindowLongPtrW = (\<lambda>h i v x. x @ [ev_os ''SetWindowLongPtrW'']),
      User32GetSystemMetrics = (\<lambda>i x. (1024, x @ [ev_os ''GetSystemMetrics''])),
      User32GetWindowRect = (\<lambda>h r x. ((1, r), x @ [ev_os ''GetWindowRect''])),
      User32MoveWindow = (\<lambda>h a b c d e x. x @ [ev_os ''MoveWindow'']),
      User32AdjustWindowRect = (\<lambda>r s m x. (r, x @ [ev_os ''AdjustWindowRect''])),
      User32SetWindowPos = (\<lambda>h a b c d e f x. x @ [ev_os ''SetWindowPos'']),
      WMApp = 0x8000,
      GWLStyle = - 16,
      WSThickFrame = 0x40000,
      WSMaximizeBox = 0x10000,
      WSOverlappedWindow = 0xCF0000,
      SWPNoZOrder = 4,
      SWPNoActivate = 0x10,
      SWPNoMove = 2,
      SWPFrameChanged = 0x20,
      SystemMetricsCxScreen = 0,
      SystemMetricsCyScreen = 1\<rparr>"

text \<open>
  Bound functions: \<open>add(a, b int) int\<close>, \<open>fail() (int, error)\<close> returning
  \<open>(0, errors.New("boom"))\<close>, \<open>sum(nums ...int) int\<close>, \<open>chan() chan int\<close>,
  \<open>pair() (int, string)\<close>, \<open>three() (int, int, int)\<close>, \<open>notify()\<close>, which
  dispatches a closure of the application's and returns nothing, and \<open>mimic() error\<close>
  returning \<open>errors.New("function arguments mismatch")\<close>. A closure is known by its
  name; each call is recorded in the outside world.
\<close>

definition add_f :: "(gotype, string) func" where
  "add_f = \<lparr>IsVariadic = False, In = [T_int, T_int], Out = [T_int], Code = ''add''\<rparr>"

definition fail_f :: "(gotype, string) func" where
  "fail_f = \<lparr>IsVariadic = False, In = [], Out = [T_int, T_error], Code = ''fail''\<rparr>"

definition sum_f :: "(gotype, string) func" where
  "sum_f = \<lparr>IsVariadic = True, In = [T_slice T_int], Out = [T_int], Code = ''sum''\<rparr>"

definition chan_f :: "(gotype, string) func" where
  "chan_f = \<lparr>IsVariadic = False, In = [], Out = [T_chan], Code = ''chan''\<rparr>"

definition pair_f :: "(gotype, string) func" where
  "pair_f = \<lparr>IsVariadic = False, In = [], Out = [T_int, T_string], Code = ''pair''\<rparr>"

definition three_f :: "(gotype, string) func" where
  "three_f = \<lparr>IsVariadic = False, In = [], Out = [T_int, T_int, T_int], Code = ''three''\<rparr>"

definition notify_f :: "(gotype, string) func" where
  "notify_f = \<lparr>IsVariadic = False, In = [], Out = [], Code = ''notify''\<rparr>"

definition mimic_f :: "(gotype, string) func" where
  "mimic_f = \<lparr>IsVariadic = False, In = [], Out = [T_error], Code = ''mimic''\<rparr>"

definition demo_invoke ::
  "string \<Rightarrow> goval list \<Rightarrow> (nat task, gotype, string, event list) state \<Rightarrow>
     goval iface list \<times> (nat task, gotype, string, event list) state" where
  "demo_invoke c args = (\<lambda>(w, x).
     if c = ''add'' then
       (case args of
          [V_int a, V_int b] \<Rightarrow> [dyn (V_int (a + b))]
        | _ \<Rightarrow> [dyn (V_int 0)],
        (w, x @ [ev_call ''add'']))
     else if c = ''fail'' then
       ([dyn (V_int 0), dyn (V_error ''boom'')], (w, x @ [ev_call ''fail'']))
     else if c = ''sum'' then
       ([dyn (V_int (sum_list (map (\<lambda>a. case a of V_int n \<Rightarrow> n | _ \<Rightarrow> 0) args)))],
        (w, x @ [ev_call ''sum'']))
     else if c = ''chan'' then ([dyn V_chan], (w, x @ [ev_call ''chan'']))
     else if c = ''pair'' then ([dyn (V_int 1), string_val ''one''], (w, x @ [ev_call ''pair'']))
     else if c = ''three'' then
       ([dyn (V_int 1), dyn (V_int 2), dyn (V_int 3)], (w, x @ [ev_call ''three'']))
     else if c = ''notify'' then
       ([], Dispatch demo_sys (other_closure 0) (w, x @ [ev_call ''notify'']))
     else if c = ''mimic'' then
       ([dyn (V_error ''function arguments mismatch'')], (w, x @ [ev_call ''mimic'']))
     else ([], (w, x)))"

definition demo_w :: "(nat task, gotype, string) WebView" where
  "demo_w =
     \<lparr>HWND = 1, mainthread = 9, maxsz = \<lparr>X = 0, Y = 0\<rparr>, minsz = \<lparr>X = 0, Y = 0\<rparr>,
      bindings = [''add'' \<mapsto> add_f, ''fail'' \<mapsto> fail_f, ''sum'' \<mapsto> sum_f,
                  ''chan'' \<mapsto> chan_f, ''pair'' \<mapsto> pair_f, ''notify'' \<mapsto> notify_f,
                  ''mimic'' \<mapsto> mimic_f],
      dispatchq = []\<rparr>"

text \<open>
  What calling a queued closure does in this instance: \<open>func() { w.Eval(js) }\<close>
  evaluates its script; the application's closure number \<open>n\<close> leaves a mark and
  dispatches a closure of the first kind. \<open>demo_ran\<close> reads off the outside world the
  closures that have run.
\<close>

definition demo_call ::
  "nat task \<Rightarrow> (nat task, gotype, string, event list) state \<Rightarrow>
     (nat task, gotype, string, event list) state" where
  "demo_call v = (\<lambda>(w, x).
     (case v of
        Eval_closure js \<Rightarrow> Eval demo_sys js (w, x)
      | other_closure n \<Rightarrow> Dispatch demo_sys (Eval_closure ''later()'') (w, x @ [ev_run n])))"

definition demo_enq ::
  "nat task \<Rightarrow> (nat task, gotype, string, event list) state \<Rightarrow> nat task list" where
  "demo_enq v s = (case v of Eval_closure js \<Rightarrow> [] | other_closure n \<Rightarrow> [Eval_closure ''later()''])"

fun demo_ran :: "event list \<Rightarrow> nat task list" where
  "demo_ran [] = []"
| "demo_ran (ev_eval js # es) = Eval_closure js # demo_ran es"
| "demo_ran (ev_run n # es) = other_closure n # demo_ran es"
| "demo_ran (e # es) = demo_ran es"

section \<open>Shared lemmas\<close>

lemmas demo_simps = demo_lib_def demo_sys_def demo_w_def demo_decode_def demo_marshal_def
  demo_itoa_def demo_unmarshal_def msg_nope_def msg_add_def msg_add_bad_def msg_add_one_def
  msg_fail_def msg_sum_def msg_chan_def msg_pair_def msg_notify_def msg_mimic_def msg_malformed_def

lemmas callbinding_simps = callbinding_def NumIn_def param_type_def reflect_Call_def

lemma callbinding_unbound:
  "bindings w (Method d) = None \<Longrightarrow> callbinding L invoke d (w, x) = ((nil, None), (w, x))"
  by (simp add: callbinding_def)

text \<open>An error of the decoding loop is the decoder's error for one of the parameters.\<close>

lemma decode_params_Inl_source:
  "decode_params L f ps i args = Inl e \<Longrightarrow>
     \<exists>k<length ps. \<exists>m. json_Unmarshal L (ps ! k) (param_type L f (i + int k)) = Inl m
                        \<and> e = json_error m"
proof (induction ps arbitrary: i args)
  case Nil
  then show ?case by simp
next
  case (Cons p ps)
  show ?case
  proof (cases "json_Unmarshal L p (param_type L f i)")
    case (Inl m)
    with Cons.prems have "e = json_error m" by simp
    with Inl show ?thesis by (intro exI [where x = 0]) simp
  next
    case (Inr a)
    with Cons.prems have "decode_params L f ps (i + 1) (args @ [a]) = Inl e" by simp
    from Cons.IH [OF this] obtain k m where k: "k < length ps"
      and m: "json_Unmarshal L (ps ! k) (param_type L f (i + 1 + int k)) = Inl m"
      and e: "e = json_error m"
      by blast
    have "json_Unmarshal L ((p # ps) ! Suc k) (param_type L f (i + int (Suc k))) = Inl m"
      using m by (simp add: algebra_simps)
    with k e show ?thesis by (intro exI [where x = "Suc k"]) simp
  qed
qed

text \<open>
  An error of the \<open>switch\<close> with the text of the arity check's error is a non-nil result
  of the call whose \<open>Error()\<close> is that text: the two errors the \<open>switch\<close> makes itself
  have other texts.
\<close>

lemma normalize_mismatch_source:
  assumes "snd (normalize L res) = Some e"
    and "Error L e = ''function arguments mismatch''"
  shows "\<exists>r\<in>set res. Interface r \<noteq> nil
           \<and> Error_method L (Interface r) = ''function arguments mismatch''"
  using assms
  by (cases "(L, res)" rule: normalize.cases) (auto split: if_splits)

lemma map2_Value_Interface:
  "r \<in> set (map2 (\<lambda>T r. \<lparr>Type = T, Interface = r\<rparr>) Ts rs) \<Longrightarrow> Interface r \<in> set rs"
  by (auto dest: set_zip_rightD)

text \<open>The loop stops at the first parameter that does not decode.\<close>

lemma decode_params_first_error:
  assumes "k < length ps"
    and "json_Unmarshal L (ps ! k) (param_type L f (i + int k)) = Inl m"
    and "\<forall>j<k. \<not> isl (json_Unmarshal L (ps ! j) (param_type L f (i + int j)))"
  shows "decode_params L f ps i args = Inl (json_error m)"
  using assms
proof (induction ps arbitrary: i args k)
  case Nil
  then show ?case by simp
next
  case (Cons p ps)
  show ?case
  proof (cases k)
    case 0
    with Cons.prems show ?thesis by simp
  next
    case (Suc k')
    from Cons.prems(3) Suc have "\<not> isl (json_Unmarshal L p (param_type L f i))"
      by (auto dest: spec [where x = 0])
    then obtain a where dec: "json_Unmarshal L p (param_type L f i) = Inr a"
      by (cases "json_Unmarshal L p (param_type L f i)") auto
    have k': "k' < length ps" using Cons.prems(1) Suc by simp
    have at: "json_Unmarshal L (ps ! k') (param_type L f ((i + 1) + int k')) = Inl m"
      using Cons.prems(2) Suc by (simp add: algebra_simps)
    have before: "\<forall>j<k'. \<not> isl (json_Unmarshal L (ps ! j) (param_type L f ((i + 1) + int j)))"
    proof (intro allI impI)
      fix j assume "j < k'"
      then have "Suc j < k" using Suc by simp
      with Cons.prems(3)
      have "\<not> isl (json_Unmarshal L ((p # ps) ! Suc j) (param_type L f (i + int (Suc j))))"
        by blast
      then show "\<not> isl (json_Unmarshal L (ps ! j) (param_type L f ((i + 1) + int j)))"
        by (simp add: algebra_simps)
    qed
    from Cons.IH [OF k' at before] dec show ?thesis by simp
  qed
qed

text \<open>
  After the arity check every index the loop uses is within the declared parameters
  (a variadic function has at least its variadic parameter), so \<open>In(i)\<close> never panics.
\<close>

lemma param_index_in_range:
  assumes "if IsVariadic f then NumIn f - 1 \<le> int (length ps) else int (length ps) = NumIn f"
    and "IsVariadic f \<longrightarrow> In f \<noteq> []"
    and "k < length ps"
  shows "if IsVariadic f \<and> NumIn f - 1 \<le> int k
         then nat (NumIn f - 1) < length (In f)
         else nat (int k) < length (In f)"
  using assms by (cases "In f") (auto simp: NumIn_def split: if_splits)

lemma callbinding_decode_error:
  assumes "bindings w (Method d) = Some f"
    and "if IsVariadic f then NumIn f - 1 \<le> int (length (Params d))
         else int (length (Params d)) = NumIn f"
    and "decode_params L f (Params d) 0 [] = Inl e"
  shows "callbinding L invoke d (w, x) = ((nil, Some e), (w, x))"
  using assms by (simp add: callbinding_def split: if_splits)

text \<open>\<open>Dispatch\<close> appends; the loop over \<open>q\<close> calls its closures one after the other.\<close>

lemma foldl_Dispatch_queue:
  "dispatchq (fst (foldl (\<lambda>s' t. Dispatch S t s') s ts)) = dispatchq (fst s) @ ts"
proof (induction ts arbitrary: s)
  case Nil
  then show ?case by simp
next
  case (Cons t ts)
  have "dispatchq (fst (Dispatch S t s)) = dispatchq (fst s) @ [t]"
    by (cases s) (simp add: Dispatch_def)
  with Cons.IH [of "Dispatch S t s"] show ?case by simp
qed

lemma range_q_seen:
  assumes "\<And>v s. seen (snd (call v s)) = seen (snd s) @ [v]"
  shows "seen (snd (range_q call q s)) = seen (snd s) @ q"
  using assms by (induction q arbitrary: s) simp_all

lemma range_q_queue:
  assumes "\<And>v s. dispatchq (fst (call v s)) = dispatchq (fst s) @ enq v s"
  shows "dispatchq (fst (range_q call q s)) = dispatchq (fst s) @ enqueued call enq q s"
  using assms by (induction q arbitrary: s) simp_all

lemma demo_ran_append: "demo_ran (xs @ ys) = demo_ran xs @ demo_ran ys"
  by (induction xs rule: demo_ran.induct) simp_all

lemma demo_decode_nope:
  "json_Unmarshal_rpcMessage demo_lib msg_nope = Inr \<lparr>ID = 1, Method = ''nope'', Params = []\<rparr>"
  by (simp add: demo_simps)

lemma demo_decode_add:
  "json_Unmarshal_rpcMessage demo_lib msg_add
     = Inr \<lparr>ID = 7, Method = ''add'', Params = [''2'', ''3'']\<rparr>"
  by (simp add: demo_simps)

lemma demo_decode_fail:
  "json_Unmarshal_rpcMessage demo_lib msg_fail = Inr \<lparr>ID = 2, Method = ''fail'', Params = []\<rparr>"
  by (simp add: demo_simps)

lemma demo_decode_chan:
  "json_Unmarshal_rpcMessage demo_lib msg_chan = Inr \<lparr>ID = 4, Method = ''chan'', Params = []\<rparr>"
  by (simp add: demo_simps)

lemma demo_decode_notify:
  "json_Unmarshal_rpcMessage demo_lib msg_notify
     = Inr \<lparr>ID = 6, Method = ''notify'', Params = []\<rparr>"
  by (simp add: demo_simps)

lemma demo_callbinding_add:
  "callbinding demo_lib demo_invoke \<lparr>ID = 7, Method = ''add'', Params = [''2'', ''3'']\<rparr>
     (demo_w, []) = ((dyn (V_int 5), None), (demo_w, [ev_call ''add'']))"
  by (simp add: callbinding_simps demo_simps add_f_def demo_invoke_def)

lemma demo_callbinding_fail:
  "callbinding demo_lib demo_invoke \<lparr>ID = 2, Method = ''fail'', Params = []\<rparr> (demo_w, [])
     = ((dyn (V_int 0), Some (value_error (dyn (V_error ''boom'')))),
        (demo_w, [ev_call ''fail'']))"
  by (simp add: callbinding_simps demo_simps fail_f_def demo_invoke_def)

lemma demo_callbinding_chan:
  "callbinding demo_lib demo_invoke \<lparr>ID = 4, Method = ''chan'', Params = []\<rparr> (demo_w, [])
     = ((dyn V_chan, None), (demo_w, [ev_call ''chan'']))"
  by (simp add: callbinding_simps demo_simps chan_f_def demo_invoke_def)

lemma demo_callbinding_notify:
  "callbinding demo_lib demo_invoke \<lparr>ID = 6, Method = ''notify'', Params = []\<rparr> (demo_w, [])
     = ((nil, None),
        (demo_w\<lparr>dispatchq := [other_closure 0]\<rparr>, [ev_call ''notify'', ev_post 9 0x8000]))"
  by (simp add: callbinding_simps demo_simps notify_f_def demo_invoke_def Dispatch_def)

section \<open>Requests for a method that is not bound\<close>

text \<open>
  C1 says that a request for an unbound method gets the outcome Void and that no response
  snippet is produced or dispatched for it. The first half holds; the second does not.
  \<open>callbinding\<close> returns \<open>(nil, nil)\<close>, and \<open>msgcb\<close> treats that pair like every
  other result without an error: it marshals \<open>nil\<close> and dispatches the resolve statement.
  At the message \<open>{"id":1,"method":"nope","params":[]}\<close> with \<open>nope\<close> unbound, the
  queue afterwards holds the closure evaluating \<open>window._rpc[1].resolve(null); ...\<close>.
\<close>

theorem unbound_method_counterexample:
  "json_Unmarshal_rpcMessage demo_lib msg_nope = Inr \<lparr>ID = 1, Method = ''nope'', Params = []\<rparr> \<and>
   bindings demo_w ''nope'' = None \<and>
   dispatchq (fst (msgcb demo_lib demo_sys demo_invoke msg_nope (demo_w, []))) =
     [Eval_closure ''window._rpc[1].resolve(null); window._rpc[1] = undefined'']"
  by (simp add: msgcb_def callbinding_def Dispatch_def resolve_js_def demo_simps)

text \<open>
  C1, amended: for every decoded request whose method is not in the binding table,
  \<open>callbinding\<close> returns \<open>(nil, nil)\<close> and leaves the state as it was, whatever the
  bound functions do (none is called), and \<open>msgcb\<close> dispatches one response for the
  request: the resolve statement with the JSON encoding of \<open>nil\<close>, followed by the wake
  message. No reject statement is dispatched.
\<close>

theorem unbound_method_resolves:
  assumes "json_Unmarshal_rpcMessage L msg = Inr d"
    and "bindings w (Method d) = None"
    and "json_Marshal L nil = Inr b"
  shows "callbinding L invoke d (w, x) = ((nil, None), (w, x)) \<and>
         msgcb L S invoke msg (w, x) =
           (w\<lparr>dispatchq := dispatchq w @
                [Eval_closure (''window._rpc['' @ strconv_Itoa L (ID d) @ ''].resolve('' @ b
                   @ ''); window._rpc['' @ strconv_Itoa L (ID d) @ ''] = undefined'')]\<rparr>,
            User32PostThreadMessageW S (mainthread w) (WMApp S) 0 0 x)"
  using assms
  by (simp add: msgcb_def callbinding_unbound Dispatch_def resolve_js_def Let_def)

theorem unbound_method_resolves_witness:
  "callbinding demo_lib demo_invoke \<lparr>ID = 1, Method = ''nope'', Params = []\<rparr> (demo_w, [])
     = ((nil, None), (demo_w, []))
   \<and> msgcb demo_lib demo_sys demo_invoke msg_nope (demo_w, []) =
       (demo_w\<lparr>dispatchq :=
          [Eval_closure ''window._rpc[1].resolve(null); window._rpc[1] = undefined'']\<rparr>,
        [ev_post 9 0x8000])"
proof -
  have unbound: "bindings demo_w (Method \<lparr>ID = 1, Method = ''nope'', Params = []\<rparr>) = None"
    by (simp add: demo_simps)
  have enc: "json_Marshal demo_lib nil = Inr ''null''"
    by (simp add: demo_simps)
  show ?thesis
    using unbound_method_resolves [OF demo_decode_nope unbound enc,
        where S = demo_sys and x = "[]" and invoke = demo_invoke]
    by (simp add: demo_simps)
qed

section \<open>The response msgcb dispatches\<close>

text \<open>
  C6: for a decoded request with id \<open>N\<close>, when \<open>callbinding\<close> returns a value \<open>res\<close>
  and no error and \<open>res\<close> has the JSON encoding \<open>b\<close>, \<open>msgcb\<close> appends to the queue
  the closure evaluating \<open>window._rpc[N].resolve(b); window._rpc[N] = undefined\<close>; when
  it returns an error \<open>e\<close>, the closure evaluates the same statement with
  \<open>reject(jsString(e.Error()))\<close>, whatever the value; the Void pair \<open>(nil, nil)\<close> is the
  pair of a nil value, so where \<open>nil\<close> encodes as \<open>null\<close> it resolves with \<open>null\<close>.
  The closure goes behind whatever the queue holds when the call has returned, and
  each dispatch posts the wake message to the main thread.
\<close>

theorem msgcb_response:
  assumes dec: "json_Unmarshal_rpcMessage L msg = Inr d"
    and cb: "callbinding L invoke d (w, x) = ((res, err), (w', x'))"
  shows "(err = None \<and> json_Marshal L res = Inr b \<longrightarrow>
           msgcb L S invoke msg (w, x) =
             (w'\<lparr>dispatchq := dispatchq w' @
                  [Eval_closure (''window._rpc['' @ strconv_Itoa L (ID d) @ ''].resolve('' @ b
                     @ ''); window._rpc['' @ strconv_Itoa L (ID d) @ ''] = undefined'')]\<rparr>,
              User32PostThreadMessageW S (mainthread w') (WMApp S) 0 0 x'))
       \<and> (err = Some e \<longrightarrow>
           msgcb L S invoke msg (w, x) =
             (w'\<lparr>dispatchq := dispatchq w' @
                  [Eval_closure (''window._rpc['' @ strconv_Itoa L (ID d) @ ''].reject(''
                     @ jsString L (string_val (Error L e))
                     @ ''); window._rpc['' @ strconv_Itoa L (ID d) @ ''] = undefined'')]\<rparr>,
              User32PostThreadMessageW S (mainthread w') (WMApp S) 0 0 x'))
       \<and> (res = nil \<and> err = None \<and> json_Marshal L nil = Inr ''null'' \<longrightarrow>
           msgcb L S invoke msg (w, x) =
             (w'\<lparr>dispatchq := dispatchq w' @
                  [Eval_closure (''window._rpc['' @ strconv_Itoa L (ID d)
                     @ ''].resolve(null); window._rpc['' @ strconv_Itoa L (ID d)
                     @ ''] = undefined'')]\<rparr>,
              User32PostThreadMessageW S (mainthread w') (WMApp S) 0 0 x'))"
  using dec cb
  by (simp add: msgcb_def Dispatch_def resolve_js_def reject_js_def Let_def)

theorem msgcb_response_witness:
  "msgcb demo_lib demo_sys demo_invoke msg_add (demo_w, []) =
     (demo_w\<lparr>dispatchq :=
        [Eval_closure ''window._rpc[7].resolve(5); window._rpc[7] = undefined'']\<rparr>,
      [ev_call ''add'', ev_post 9 0x8000])
   \<and> msgcb demo_lib demo_sys demo_invoke msg_fail (demo_w, []) =
     (demo_w\<lparr>dispatchq :=
        [Eval_closure ''window._rpc[2].reject(\"boom\"); window._rpc[2] = undefined'']\<rparr>,
      [ev_call ''fail'', ev_post 9 0x8000])
   \<and> msgcb demo_lib demo_sys demo_invoke msg_notify (demo_w, []) =
     (demo_w\<lparr>dispatchq :=
        [other_closure 0,
         Eval_closure ''window._rpc[6].resolve(null); window._rpc[6] = undefined'']\<rparr>,
      [ev_call ''notify'', ev_post 9 0x8000, ev_post 9 0x8000])"
proof -
  have enc: "json_Marshal demo_lib (dyn (V_int 5)) = Inr ''5''"
    by (simp add: demo_simps)
  have enc_nil: "json_Marshal demo_lib nil = Inr ''null''"
    by (simp add: demo_simps)
  show ?thesis
    using msgcb_response [OF demo_decode_add demo_callbinding_add,
        where b = "''5''" and S = demo_sys]
      msgcb_response [OF demo_decode_fail demo_callbinding_fail,
        where e = "value_error (dyn (V_error ''boom''))" and S = demo_sys]
      msgcb_response [OF demo_decode_notify demo_callbinding_notify, where S = demo_sys]
      enc enc_nil
    by (simp add: demo_simps jsString_def)
qed

text \<open>
  C7: when the call succeeds but its result cannot be marshalled, \<open>msgcb\<close> dispatches
  the reject statement for the request's id, carrying the JSON string of the encoding
  error's message, and does nothing else.
\<close>

theorem msgcb_encoding_error:
  assumes dec: "json_Unmarshal_rpcMessage L msg = Inr d"
    and cb: "callbinding L invoke d (w, x) = ((res, None), (w', x'))"
    and enc: "json_Marshal L res = Inl m"
  shows "msgcb L S invoke msg (w, x) =
           (w'\<lparr>dispatchq := dispatchq w' @
                [Eval_closure (''window._rpc['' @ strconv_Itoa L (ID d) @ ''].reject(''
                   @ jsString L (string_val m)
                   @ ''); window._rpc['' @ strconv_Itoa L (ID d) @ ''] = undefined'')]\<rparr>,
            User32PostThreadMessageW S (mainthread w') (WMApp S) 0 0 x')"
  using dec cb enc
  by (simp add: msgcb_def Dispatch_def reject_js_def Let_def)

theorem msgcb_encoding_error_witness:
  "msgcb demo_lib demo_sys demo_invoke msg_chan (demo_w, []) =
     (demo_w\<lparr>dispatchq :=
        [Eval_closure
           ''window._rpc[4].reject(\"json: unsupported type: chan int\"); window._rpc[4] = undefined'']\<rparr>,
      [ev_call ''chan'', ev_post 9 0x8000])"
proof -
  have enc: "json_Marshal demo_lib (dyn V_chan) = Inl ''json: unsupported type: chan int''"
    by (simp add: demo_simps)
  show ?thesis
    using msgcb_encoding_error [OF demo_decode_chan demo_callbinding_chan enc, where S = demo_sys]
    by (simp add: demo_simps jsString_def)
qed

text \<open>
  C8: a message that does not parse as the envelope is logged and dropped. The WebView
  comes back as it was, queue and binding table included, and the outside state is
  changed by the one call of \<open>log.Printf\<close> only: no bound function is called,
  whatever the bound functions do, and nothing is dispatched.
\<close>

theorem msgcb_malformed:
  assumes "json_Unmarshal_rpcMessage L msg = Inl err"
  shows "msgcb L S invoke msg (w, x) = (w, log_Printf S (''invalid RPC message: '' @ err) x)"
  using assms by (simp add: msgcb_def)

theorem msgcb_malformed_witness:
  "msgcb demo_lib demo_sys demo_invoke msg_malformed (demo_w, []) =
     (demo_w, [ev_log ''invalid RPC message: unexpected end of JSON input''])"
proof -
  have dec: "json_Unmarshal_rpcMessage demo_lib msg_malformed
               = Inl ''unexpected end of JSON input''"
    by (simp add: demo_simps)
  show ?thesis
    using msgcb_malformed [OF dec, where S = demo_sys and w = demo_w and x = "[]"
        and invoke = demo_invoke]
    by (simp add: demo_simps)
qed

section \<open>What callbinding returns\<close>

text \<open>
  C3 says that \<open>callbinding\<close> returns the outcome Err with the message
  \<open>function arguments mismatch\<close> exactly when the arity check fails. One half holds:
  when the check fails, that is what it returns. The other does not: an outcome is known
  by its message, and a bound function can pass the check and return an error with that
  very text. With \<open>mimic() error\<close> returning \<open>errors.New("function arguments mismatch")\<close>
  bound, the request \<open>{"id":8,"method":"mimic","params":[]}\<close> passes the check (no parameter
  sent, none declared), \<open>callbinding\<close> returns an error whose \<open>Error()\<close> is that text, and
  \<open>msgcb\<close> dispatches the reject statement carrying it.
\<close>

theorem arguments_mismatch_counterexample:
  "bindings demo_w (Method \<lparr>ID = 8, Method = ''mimic'', Params = []\<rparr>) = Some mimic_f
   \<and> \<not> IsVariadic mimic_f
   \<and> int (length (Params \<lparr>ID = 8, Method = ''mimic'', Params = []\<rparr>)) = NumIn mimic_f
   \<and> callbinding demo_lib demo_invoke \<lparr>ID = 8, Method = ''mimic'', Params = []\<rparr> (demo_w, [])
       = ((nil, Some (value_error (dyn (V_error ''function arguments mismatch'')))),
          (demo_w, [ev_call ''mimic'']))
   \<and> Error demo_lib (value_error (dyn (V_error ''function arguments mismatch'')))
       = ''function arguments mismatch''
   \<and> dispatchq (fst (msgcb demo_lib demo_sys demo_invoke msg_mimic (demo_w, [])))
       = [Eval_closure
            ''window._rpc[8].reject(\"function arguments mismatch\"); window._rpc[8] = undefined'']"
  by (simp add: msgcb_def callbinding_simps Dispatch_def reject_js_def jsString_def demo_simps
        mimic_f_def demo_invoke_def)

text \<open>
  C3, amended: for a bound function, when the arity check fails (for a variadic function,
  fewer parameters than the declared count minus one; for any other, a number of
  parameters that differs from the declared count), \<open>callbinding\<close> returns a nil value
  and an error with the message \<open>function arguments mismatch\<close>, and leaves the state
  alone. A variadic function whose only parameter is the variadic one passes the check
  with no parameters: it is called with no arguments and its results are normalized.
  When the check passes, an error with that message is returned only where the decoder's
  error for some parameter has that text, or where the function was called and one of its
  results is not nil and has that text as its \<open>Error()\<close>.
\<close>

theorem arguments_mismatch_error:
  assumes bound: "bindings w (Method d) = Some f"
  shows "((if IsVariadic f then int (length (Params d)) < NumIn f - 1
           else int (length (Params d)) \<noteq> NumIn f) \<longrightarrow>
            callbinding L invoke d (w, x)
              = ((nil, Some (errors_New ''function arguments mismatch'')), (w, x))
            \<and> Error L (errors_New ''function arguments mismatch'')
                = ''function arguments mismatch'')
       \<and> (IsVariadic f \<and> NumIn f = 1 \<and> Params d = [] \<longrightarrow>
            callbinding L invoke d (w, x)
              = (case reflect_Call invoke f [] (w, x) of (res, s') \<Rightarrow> (normalize L res, s')))
       \<and> (\<not> (if IsVariadic f then int (length (Params d)) < NumIn f - 1
               else int (length (Params d)) \<noteq> NumIn f)
           \<and> snd (fst (callbinding L invoke d (w, x))) = Some e
           \<and> Error L e = ''function arguments mismatch'' \<longrightarrow>
            (\<exists>k<length (Params d).
               json_Unmarshal L (Params d ! k) (param_type L f (int k))
                 = Inl ''function arguments mismatch'')
          \<or> (\<exists>args. decode_params L f (Params d) 0 [] = Inr args
                \<and> (\<exists>r\<in>set (fst (invoke (Code f) args (w, x))).
                      r \<noteq> nil \<and> Error_method L r = ''function arguments mismatch'')))"
proof -
  let ?mm = "if IsVariadic f then int (length (Params d)) < NumIn f - 1
             else int (length (Params d)) \<noteq> NumIn f"
  have fails: "?mm \<longrightarrow>
      callbinding L invoke d (w, x)
        = ((nil, Some (errors_New ''function arguments mismatch'')), (w, x))
      \<and> Error L (errors_New ''function arguments mismatch'') = ''function arguments mismatch''"
    using bound by (simp add: callbinding_def split: if_splits)
  have variadic: "IsVariadic f \<and> NumIn f = 1 \<and> Params d = [] \<longrightarrow>
      callbinding L invoke d (w, x)
        = (case reflect_Call invoke f [] (w, x) of (res, s') \<Rightarrow> (normalize L res, s'))"
    using bound by (simp add: callbinding_def)
  have passes: "(\<exists>k<length (Params d).
               json_Unmarshal L (Params d ! k) (param_type L f (int k))
                 = Inl ''function arguments mismatch'')
          \<or> (\<exists>args. decode_params L f (Params d) 0 [] = Inr args
                \<and> (\<exists>r\<in>set (fst (invoke (Code f) args (w, x))).
                      r \<noteq> nil \<and> Error_method L r = ''function arguments mismatch''))"
    if ok: "\<not> ?mm" and err: "snd (fst (callbinding L invoke d (w, x))) = Some e"
      and same: "Error L e = ''function arguments mismatch''"
  proof (cases "decode_params L f (Params d) 0 []")
    case (Inl e')
    have "callbinding L invoke d (w, x) = ((nil, Some e'), (w, x))"
      using bound ok Inl by (simp add: callbinding_def split: if_splits)
    with err have "e' = e" by simp
    with Inl obtain k m where "k < length (Params d)"
      and "json_Unmarshal L (Params d ! k) (param_type L f (0 + int k)) = Inl m"
      and "e = json_error m"
      using decode_params_Inl_source [of L f "Params d" 0 "[]" e'] by blast
    with same show ?thesis by auto
  next
    case (Inr args)
    obtain rs s' where call: "invoke (Code f) args (w, x) = (rs, s')"
      by (cases "invoke (Code f) args (w, x)")
    have "fst (callbinding L invoke d (w, x))
            = normalize L (map2 (\<lambda>T r. \<lparr>Type = T, Interface = r\<rparr>) (Out f) rs)"
      using bound ok Inr call
      by (simp add: callbinding_def reflect_Call_def split: if_splits)
    with err
    have "snd (normalize L (map2 (\<lambda>T r. \<lparr>Type = T, Interface = r\<rparr>) (Out f) rs)) = Some e"
      by simp
    from normalize_mismatch_source [OF this same]
    obtain r where "r \<in> set (map2 (\<lambda>T r. \<lparr>Type = T, Interface = r\<rparr>) (Out f) rs)"
      and r: "Interface r \<noteq> nil"
         "Error_method L (Interface r) = ''function arguments mismatch''"
      by blast
    then have "Interface r \<in> set rs" by (simp add: map2_Value_Interface)
    with r call Inr show ?thesis by auto
  qed
  from fails variadic passes show ?thesis by blast
qed

theorem arguments_mismatch_error_witness:
  "callbinding demo_lib demo_invoke \<lparr>ID = 7, Method = ''add'', Params = [''2'']\<rparr> (demo_w, [])
     = ((nil, Some (errors_New ''function arguments mismatch'')), (demo_w, []))
   \<and> callbinding demo_lib demo_invoke \<lparr>ID = 3, Method = ''sum'', Params = []\<rparr> (demo_w, [])
     = ((dyn (V_int 0), None), (demo_w, [ev_call ''sum'']))
   \<and> (\<exists>args. decode_params demo_lib mimic_f
                 (Params \<lparr>ID = 8, Method = ''mimic'', Params = []\<rparr>) 0 [] = Inr args
          \<and> (\<exists>r\<in>set (fst (demo_invoke (Code mimic_f) args (demo_w, []))).
                r \<noteq> nil \<and> Error_method demo_lib r = ''function arguments mismatch''))"
proof -
  have b1: "bindings demo_w (Method \<lparr>ID = 7, Method = ''add'', Params = [''2'']\<rparr>) = Some add_f"
    by (simp add: demo_w_def)
  have b2: "bindings demo_w (Method \<lparr>ID = 3, Method = ''sum'', Params = []\<rparr>) = Some sum_f"
    by (simp add: demo_w_def)
  have b3: "bindings demo_w (Method \<lparr>ID = 8, Method = ''mimic'', Params = []\<rparr>) = Some mimic_f"
    by (simp add: demo_w_def)
  have c3: "snd (fst (callbinding demo_lib demo_invoke
                       \<lparr>ID = 8, Method = ''mimic'', Params = []\<rparr> (demo_w, [])))
              = Some (value_error (dyn (V_error ''function arguments mismatch'')))"
    by (simp add: callbinding_simps demo_simps mimic_f_def demo_invoke_def)
  have t3: "Error demo_lib (value_error (dyn (V_error ''function arguments mismatch'')))
              = ''function arguments mismatch''"
    by (simp add: demo_lib_def)
  have first: "callbinding demo_lib demo_invoke \<lparr>ID = 7, Method = ''add'', Params = [''2'']\<rparr>
                 (demo_w, [])
                 = ((nil, Some (errors_New ''function arguments mismatch'')), (demo_w, []))"
    using arguments_mismatch_error [OF b1, where L = demo_lib and x = "[]"
        and invoke = demo_invoke]
    by (simp add: NumIn_def add_f_def)
  have second: "callbinding demo_lib demo_invoke \<lparr>ID = 3, Method = ''sum'', Params = []\<rparr>
                  (demo_w, [])
                  = ((dyn (V_int 0), None), (demo_w, [ev_call ''sum'']))"
    using arguments_mismatch_error [OF b2, where L = demo_lib and x = "[]"
        and invoke = demo_invoke]
    by (simp add: NumIn_def sum_f_def reflect_Call_def demo_invoke_def demo_lib_def)
  have third: "\<exists>args. decode_params demo_lib mimic_f
                 (Params \<lparr>ID = 8, Method = ''mimic'', Params = []\<rparr>) 0 [] = Inr args
          \<and> (\<exists>r\<in>set (fst (demo_invoke (Code mimic_f) args (demo_w, []))).
                r \<noteq> nil \<and> Error_method demo_lib r = ''function arguments mismatch'')"
    using arguments_mismatch_error [OF b3, where L = demo_lib and x = "[]"
        and invoke = demo_invoke
        and e = "value_error (dyn (V_error ''function arguments mismatch''))"] c3 t3
    by (simp add: NumIn_def mimic_f_def)
  from first second third show ?thesis by blast
qed

text \<open>
  C4: for a bound function and a request that passes the arity check, if some parameter
  does not decode into the type of its position, \<open>callbinding\<close> returns at once a nil
  value and the decoder's error, whose message is the decoder's message, for the first
  such parameter: every parameter before it decodes, and no later one is looked at. The
  function is not called: the state is returned as it was, and the result is the same
  whatever running the function would do. Where the first two parameters both fail, the
  error is the first one's.
\<close>

theorem decode_failure_aborts:
  assumes bound: "bindings w (Method d) = Some f"
    and arity: "if IsVariadic f then NumIn f - 1 \<le> int (length (Params d))
                else int (length (Params d)) = NumIn f"
    and fails: "\<exists>k<length (Params d).
                  isl (json_Unmarshal L (Params d ! k) (param_type L f (int k)))"
  shows "\<exists>k<length (Params d). \<exists>m.
           json_Unmarshal L (Params d ! k) (param_type L f (int k)) = Inl m
         \<and> (\<forall>j<k. \<not> isl (json_Unmarshal L (Params d ! j) (param_type L f (int j))))
         \<and> Error L (json_error m) = m
         \<and> (\<forall>invoke. callbinding L invoke d (w, x) = ((nil, Some (json_error m)), (w, x)))"
proof -
  let ?P = "\<lambda>k. k < length (Params d)
                \<and> isl (json_Unmarshal L (Params d ! k) (param_type L f (int k)))"
  from fails have "\<exists>k. ?P k" by blast
  then obtain k where k: "?P k" and least: "\<forall>j<k. \<not> ?P j"
    using exists_least_iff [of ?P] by blast
  from k obtain m where m: "json_Unmarshal L (Params d ! k) (param_type L f (int k)) = Inl m"
    by (cases "json_Unmarshal L (Params d ! k) (param_type L f (int k))") auto
  have before: "\<forall>j<k. \<not> isl (json_Unmarshal L (Params d ! j) (param_type L f (int j)))"
    using least k by auto
  have dec: "decode_params L f (Params d) 0 [] = Inl (json_error m)"
    using decode_params_first_error [of k "Params d" L f 0 m "[]"] k m before by simp
  have any: "callbinding L invoke d (w, x) = ((nil, Some (json_error m)), (w, x))" for invoke
    using callbinding_decode_error [OF bound arity dec] .
  from k m before any show ?thesis by auto
qed

theorem decode_failure_aborts_witness:
  "callbinding demo_lib demo_invoke
     \<lparr>ID = 7, Method = ''add'', Params = [''\"x\"'', ''true'']\<rparr> (demo_w, [])
     = ((nil, Some (json_error ''json: cannot unmarshal string into Go value of type int'')),
        (demo_w, []))"
proof -
  let ?d = "\<lparr>ID = 7, Method = ''add'', Params = [''\"x\"'', ''true'']\<rparr>"
  have bound: "bindings demo_w (Method ?d) = Some add_f"
    by (simp add: demo_w_def)
  have arity: "if IsVariadic add_f then NumIn add_f - 1 \<le> int (length (Params ?d))
               else int (length (Params ?d)) = NumIn add_f"
    by (simp add: NumIn_def add_f_def)
  have at0: "json_Unmarshal demo_lib (Params ?d ! 0) (param_type demo_lib add_f (int 0))
               = Inl ''json: cannot unmarshal string into Go value of type int''"
    by (simp add: demo_lib_def demo_unmarshal_def param_type_def NumIn_def add_f_def)
  have fails: "\<exists>k<length (Params ?d).
                 isl (json_Unmarshal demo_lib (Params ?d ! k) (param_type demo_lib add_f (int k)))"
    using at0 by (intro exI [where x = 0]) simp
  from decode_failure_aborts [OF bound arity fails, where x = "[] :: event list"]
  obtain k m where m: "json_Unmarshal demo_lib (Params ?d ! k) (param_type demo_lib add_f (int k))
                         = Inl m"
    and least: "\<forall>j<k. \<not> isl (json_Unmarshal demo_lib (Params ?d ! j)
                                (param_type demo_lib add_f (int j)))"
    and cb: "\<forall>invoke. callbinding demo_lib invoke ?d (demo_w, [] :: event list)
                        = ((nil, Some (json_error m)), (demo_w, []))"
    by blast
  have "k = 0"
  proof (rule ccontr)
    assume "k \<noteq> 0"
    then have "0 < k" by simp
    with least have "\<not> isl (json_Unmarshal demo_lib (Params ?d ! 0)
                                (param_type demo_lib add_f (int 0)))"
      by blast
    with at0 show False by simp
  qed
  with m at0 have "m = ''json: cannot unmarshal string into Go value of type int''"
    by simp
  with cb [THEN spec, of demo_invoke] show ?thesis by simp
qed

text \<open>
  C2: for a bound function whose parameters pass the arity check and decode, the results
  of the call are normalized by their number. None: \<open>(nil, nil)\<close>. One, of a type that
  implements \<open>error\<close>: the error when it is not nil, \<open>(nil, nil)\<close> when it is; of any
  other type: the value and no error. Two, the second of a type that implements
  \<open>error\<close>: the first value and no error when the second is nil; the second as the error
  when it is not, and then \<open>msgcb\<close> delivers the reject statement with the error's message
  and nothing of the first value. Three or more:
  the error \<open>unexpected number of return values\<close>.
\<close>

theorem callbinding_normalizes:
  assumes bound: "bindings w (Method d) = Some f"
    and arity: "if IsVariadic f then NumIn f - 1 \<le> int (length (Params d))
                else int (length (Params d)) = NumIn f"
    and decoded: "decode_params L f (Params d) 0 [] = Inr args"
    and call: "invoke (Code f) args (w, x) = (rs, (w', x'))"
  shows "(Out f = [] \<and> rs = [] \<longrightarrow>
            callbinding L invoke d (w, x) = ((nil, None), (w', x')))
       \<and> (Out f = [T] \<and> rs = [r] \<and> Implements_error L T \<and> r \<noteq> nil \<longrightarrow>
            callbinding L invoke d (w, x) = ((nil, Some (value_error r)), (w', x')))
       \<and> (Out f = [T] \<and> rs = [r] \<and> Implements_error L T \<and> r = nil \<longrightarrow>
            callbinding L invoke d (w, x) = ((nil, None), (w', x')))
       \<and> (Out f = [T] \<and> rs = [r] \<and> \<not> Implements_error L T \<longrightarrow>
            callbinding L invoke d (w, x) = ((r, None), (w', x')))
       \<and> (Out f = [T0, T1] \<and> rs = [r0, r1] \<and> Implements_error L T1 \<and> r1 = nil \<longrightarrow>
            callbinding L invoke d (w, x) = ((r0, None), (w', x')))
       \<and> (Out f = [T0, T1] \<and> rs = [r0, r1] \<and> Implements_error L T1 \<and> r1 \<noteq> nil \<longrightarrow>
            callbinding L invoke d (w, x) = ((r0, Some (value_error r1)), (w', x'))
            \<and> Error L (value_error r1) = Error_method L r1
            \<and> (json_Unmarshal_rpcMessage L msg = Inr d \<longrightarrow>
                 msgcb L S invoke msg (w, x) =
                   (w'\<lparr>dispatchq := dispatchq w' @
                        [Eval_closure (''window._rpc['' @ strconv_Itoa L (ID d) @ ''].reject(''
                           @ jsString L (string_val (Error_method L r1))
                           @ ''); window._rpc['' @ strconv_Itoa L (ID d) @ ''] = undefined'')]\<rparr>,
                    User32PostThreadMessageW S (mainthread w') (WMApp S) 0 0 x')))
       \<and> (3 \<le> length (Out f) \<and> 3 \<le> length rs \<longrightarrow>
            callbinding L invoke d (w, x) =
              ((nil, Some (errors_New ''unexpected number of return values'')), (w', x')))"
proof -
  have cb: "callbinding L invoke d (w, x)
              = (normalize L (map2 (\<lambda>T r. \<lparr>Type = T, Interface = r\<rparr>) (Out f) rs), (w', x'))"
    using bound arity decoded call
    by (simp add: callbinding_def reflect_Call_def split: if_splits)
  have many: "3 \<le> length (Out f) \<and> 3 \<le> length rs \<longrightarrow>
      normalize L (map2 (\<lambda>T r. \<lparr>Type = T, Interface = r\<rparr>) (Out f) rs)
        = (nil, Some (errors_New ''unexpected number of return values''))"
  proof
    assume len: "3 \<le> length (Out f) \<and> 3 \<le> length rs"
    then obtain a b c ts where ts: "Out f = a # b # c # ts"
      by (cases "Out f"; cases "tl (Out f)"; cases "tl (tl (Out f))") auto
    from len obtain p q r ss where ss: "rs = p # q # r # ss"
      by (cases rs; cases "tl rs"; cases "tl (tl rs)") auto
    show "normalize L (map2 (\<lambda>T r. \<lparr>Type = T, Interface = r\<rparr>) (Out f) rs)
            = (nil, Some (errors_New ''unexpected number of return values''))"
      by (simp add: ts ss)
  qed
  show ?thesis
    using many
    by (simp add: cb msgcb_def Dispatch_def reject_js_def Let_def)
qed

theorem callbinding_normalizes_witness:
  "callbinding demo_lib demo_invoke \<lparr>ID = 2, Method = ''fail'', Params = []\<rparr> (demo_w, [])
     = ((dyn (V_int 0), Some (value_error (dyn (V_error ''boom'')))),
        (demo_w, [ev_call ''fail'']))
   \<and> msgcb demo_lib demo_sys demo_invoke msg_fail (demo_w, []) =
     (demo_w\<lparr>dispatchq :=
        [Eval_closure ''window._rpc[2].reject(\"boom\"); window._rpc[2] = undefined'']\<rparr>,
      [ev_call ''fail'', ev_post 9 0x8000])
   \<and> callbinding demo_lib demo_invoke \<lparr>ID = 7, Method = ''add'', Params = [''2'', ''3'']\<rparr>
       (demo_w, [])
     = ((dyn (V_int 5), None), (demo_w, [ev_call ''add'']))"
proof -
  have b1: "bindings demo_w (Method \<lparr>ID = 2, Method = ''fail'', Params = []\<rparr>) = Some fail_f"
    by (simp add: demo_w_def)
  have a1: "if IsVariadic fail_f
            then NumIn fail_f - 1 \<le> int (length (Params \<lparr>ID = 2, Method = ''fail'', Params = []\<rparr>))
            else int (length (Params \<lparr>ID = 2, Method = ''fail'', Params = []\<rparr>)) = NumIn fail_f"
    by (simp add: NumIn_def fail_f_def)
  have d1: "decode_params demo_lib fail_f (Params \<lparr>ID = 2, Method = ''fail'', Params = []\<rparr>) 0 []
              = Inr []"
    by simp
  have c1: "demo_invoke (Code fail_f) [] (demo_w, [])
              = ([dyn (V_int 0), dyn (V_error ''boom'')], (demo_w, [ev_call ''fail'']))"
    by (simp add: fail_f_def demo_invoke_def)
  have b2: "bindings demo_w (Method \<lparr>ID = 7, Method = ''add'', Params = [''2'', ''3'']\<rparr>)
              = Some add_f"
    by (simp add: demo_w_def)
  have a2: "if IsVariadic add_f
            then NumIn add_f - 1
                   \<le> int (length (Params \<lparr>ID = 7, Method = ''add'', Params = [''2'', ''3'']\<rparr>))
            else int (length (Params \<lparr>ID = 7, Method = ''add'', Params = [''2'', ''3'']\<rparr>))
                   = NumIn add_f"
    by (simp add: NumIn_def add_f_def)
  have d2: "decode_params demo_lib add_f
              (Params \<lparr>ID = 7, Method = ''add'', Params = [''2'', ''3'']\<rparr>) 0 []
              = Inr [V_int 2, V_int 3]"
    by (simp add: demo_lib_def demo_unmarshal_def param_type_def NumIn_def add_f_def)
  have c2: "demo_invoke (Code add_f) [V_int 2, V_int 3] (demo_w, [])
              = ([dyn (V_int 5)], (demo_w, [ev_call ''add'']))"
    by (simp add: add_f_def demo_invoke_def)
  show ?thesis
    using callbinding_normalizes [where invoke = demo_invoke and ?T0.0 = T_int
        and ?T1.0 = T_error and ?r0.0 = "dyn (V_int 0)" and ?r1.0 = "dyn (V_error ''boom'')"
        and msg = msg_fail and S = demo_sys, OF b1 a1 d1 c1]
      callbinding_normalizes [where invoke = demo_invoke and T = T_int
        and r = "dyn (V_int 5)", OF b2 a2 d2 c2]
    by (simp add: demo_simps jsString_def fail_f_def add_f_def)
qed

section \<open>Bind\<close>

text \<open>
  C9 says that \<open>Bind\<close> returns an error for a function with two results whose second is
  not of a type implementing \<open>error\<close>. It does not: \<open>Bind\<close> tests the kind and the
  number of results only. For \<open>pair() (int, string)\<close> it returns nil, stores the
  function under its name and injects the script.
\<close>

theorem Bind_checks_counterexample:
  "Out pair_f = [T_int, T_string] \<and> \<not> Implements_error demo_lib T_string
   \<and> fst (Bind demo_lib demo_sys ''pair'' (Func pair_f) (demo_w\<lparr>bindings := Map.empty\<rparr>, []))
       = None
   \<and> bindings (fst (snd (Bind demo_lib demo_sys ''pair'' (Func pair_f)
                           (demo_w\<lparr>bindings := Map.empty\<rparr>, [])))) ''pair''
       = Some pair_f
   \<and> length (snd (snd (Bind demo_lib demo_sys ''pair'' (Func pair_f)
                         (demo_w\<lparr>bindings := Map.empty\<rparr>, [])))) = 1"
  by (simp add: Bind_def Init_def NumOut_def pair_f_def demo_lib_def demo_sys_def)

text \<open>
  C9, amended: \<open>Bind\<close> returns an error, before any script is injected and with the
  binding table unchanged, for a value that is not a function and for a function with
  more than two results. Every other function, a function with two results whose second
  does not implement \<open>error\<close> included, is stored under its name, the script is
  injected, and \<open>Bind\<close> returns nil. The second result is tested when the function is
  invoked: \<open>callbinding\<close> calls it and then returns the error
  \<open>second return value must be an error\<close>.
\<close>

theorem Bind_checks:
  "Bind L S name (NotFunc v) (w, x)
     = (Some (errors_New ''only functions can be bound''), (w, x))
   \<and> (NumOut fn > 2 \<longrightarrow>
        Bind L S name (Func fn) (w, x)
          = (Some (errors_New ''function may only return a value or a value+error''), (w, x)))
   \<and> (NumOut fn \<le> 2 \<longrightarrow>
        Bind L S name (Func fn) (w, x)
          = (None,
             (w\<lparr>bindings := (bindings w)(name \<mapsto> fn)\<rparr>,
              Browser_Init S (''(function() { var name = '' @ jsString L (string_val name) @ '';''
                                @ bind_js) x)))
   \<and> (Out fn = [T0, T1] \<and> \<not> Implements_error L T1 \<longrightarrow>
        fst (Bind L S name (Func fn) (w, x)) = None
        \<and> bindings (fst (snd (Bind L S name (Func fn) (w, x)))) name = Some fn)
   \<and> (bindings w (Method d) = Some fn
        \<and> (if IsVariadic fn then NumIn fn - 1 \<le> int (length (Params d))
            else int (length (Params d)) = NumIn fn)
        \<and> decode_params L fn (Params d) 0 [] = Inr args
        \<and> invoke (Code fn) args (w, x) = ([r0, r1], s')
        \<and> Out fn = [T0, T1] \<and> \<not> Implements_error L T1 \<longrightarrow>
        callbinding L invoke d (w, x)
          = ((nil, Some (errors_New ''second return value must be an error'')), s'))"
  by (simp add: Bind_def Init_def NumOut_def callbinding_def reflect_Call_def split: if_splits)

theorem Bind_checks_witness:
  "fst (Bind demo_lib demo_sys ''pair'' (Func pair_f) (demo_w, [])) = None
   \<and> bindings (fst (snd (Bind demo_lib demo_sys ''pair'' (Func pair_f) (demo_w, [])))) ''pair''
       = Some pair_f
   \<and> callbinding demo_lib demo_invoke \<lparr>ID = 5, Method = ''pair'', Params = []\<rparr> (demo_w, [])
       = ((nil, Some (errors_New ''second return value must be an error'')),
          (demo_w, [ev_call ''pair'']))
   \<and> Bind demo_lib demo_sys ''three'' (Func three_f) (demo_w, [])
       = (Some (errors_New ''function may only return a value or a value+error''), (demo_w, []))"
  using Bind_checks [where L = demo_lib and S = demo_sys and name = "''pair''" and fn = pair_f
      and w = demo_w and x = "[]" and ?T0.0 = T_int and ?T1.0 = T_string
      and d = "\<lparr>ID = 5, Method = ''pair'', Params = []\<rparr>" and args = "[]"
      and invoke = demo_invoke
      and ?r0.0 = "dyn (V_int 1)" and ?r1.0 = "string_val ''one''"
      and s' = "(demo_w, [ev_call ''pair''])"]
    Bind_checks [where L = demo_lib and S = demo_sys and name = "''three''" and fn = three_f
      and w = demo_w and x = "[]"]
  by (simp add: demo_lib_def demo_w_def pair_f_def three_f_def NumIn_def NumOut_def
        demo_invoke_def)

section \<open>One pass over the queue\<close>

text \<open>
  C5: the branch of \<open>Run\<close> for the wake message empties the queue and then calls the
  closures that were in it, each once, in the order they were enqueued. Stated for every
  behaviour \<open>call\<close> of closures that touches the queue through \<open>Dispatch\<close> only, and
  for every record \<open>seen\<close> the outside world keeps of the closures called: after the
  pass the record has grown by exactly the old queue, in order, and the queue holds
  exactly the closures dispatched during the pass, none of which was called. The first
  closure already runs on the emptied queue.
\<close>

theorem Run_WMApp_drains:
  assumes sn: "\<And>v s. seen (snd (call v s)) = seen (snd s) @ [v]"
    and disp: "\<And>v s. dispatchq (fst (call v s))
                 = dispatchq (fst (foldl (\<lambda>s' t. Dispatch S t s') s (enq v s)))"
  shows "seen (snd (Run_WMApp call (w, x))) = seen x @ dispatchq w
       \<and> dispatchq (fst (Run_WMApp call (w, x)))
           = enqueued call enq (dispatchq w) (w\<lparr>dispatchq := []\<rparr>, x)"
proof -
  have step: "dispatchq (fst (call v s)) = dispatchq (fst s) @ enq v s" for v s
    using disp [of v s] by (simp add: foldl_Dispatch_queue)
  have run: "Run_WMApp call (w, x) = range_q call (dispatchq w) (w\<lparr>dispatchq := []\<rparr>, x)"
    by (simp add: Run_WMApp_def)
  have "seen (snd (Run_WMApp call (w, x))) = seen x @ dispatchq w"
    using range_q_seen [of seen call "dispatchq w" "(w\<lparr>dispatchq := []\<rparr>, x)"] sn
    by (simp add: run)
  moreover have "dispatchq (fst (Run_WMApp call (w, x)))
           = enqueued call enq (dispatchq w) (w\<lparr>dispatchq := []\<rparr>, x)"
    using range_q_queue [of call enq "dispatchq w" "(w\<lparr>dispatchq := []\<rparr>, x)"] step
    by (simp add: run)
  ultimately show ?thesis by simp
qed

theorem Run_WMApp_drains_witness:
  "demo_ran (snd (Run_WMApp demo_call
      (demo_w\<lparr>dispatchq := [other_closure 1, Eval_closure ''a()'']\<rparr>, [])))
     = [other_closure 1, Eval_closure ''a()'']
   \<and> dispatchq (fst (Run_WMApp demo_call
      (demo_w\<lparr>dispatchq := [other_closure 1, Eval_closure ''a()'']\<rparr>, [])))
     = [Eval_closure ''later()'']"
proof -
  have sn: "demo_ran (snd (demo_call v s)) = demo_ran (snd s) @ [v]" for v s
    by (cases s; cases v)
       (simp_all add: demo_call_def Eval_def Dispatch_def demo_sys_def demo_ran_append)
  have disp: "dispatchq (fst (demo_call v s))
                = dispatchq (fst (foldl (\<lambda>s' t. Dispatch demo_sys t s') s (demo_enq v s)))" for v s
    by (cases s; cases v) (simp_all add: demo_call_def demo_enq_def Eval_def Dispatch_def)
  show ?thesis
    using Run_WMApp_drains [of demo_ran demo_call demo_sys demo_enq
        "demo_w\<lparr>dispatchq := [other_closure 1, Eval_closure ''a()'']\<rparr>" "[]", OF sn disp]
    by (simp add: demo_enq_def)
qed

section \<open>SetSize\<close>

text \<open>
  C10: \<open>SetSize\<close> with \<open>HintMax\<close> changes of the WebView only \<open>maxsz\<close>, to the width
  and height as \<open>int32\<close>, and so leaves \<open>minsz\<close>; with \<open>HintMin\<close> it changes only
  \<open>minsz\<close> and leaves \<open>maxsz\<close>; with \<open>HintNone\<close>, \<open>HintFixed\<close> or \<open>HintCenter\<close> it
  leaves the WebView as it was. The window style and the window's place and size belong
  to the outside state.
\<close>

theorem SetSize_frame:
  "fst (SetSize S width height HintMax (w, x))
     = w\<lparr>maxsz := \<lparr>X = int32_of_int width, Y = int32_of_int height\<rparr>\<rparr>
   \<and> minsz (fst (SetSize S width height HintMax (w, x))) = minsz w
   \<and> fst (SetSize S width height HintMin (w, x))
     = w\<lparr>minsz := \<lparr>X = int32_of_int width, Y = int32_of_int height\<rparr>\<rparr>
   \<and> maxsz (fst (SetSize S width height HintMin (w, x))) = maxsz w
   \<and> fst (SetSize S width height HintNone (w, x)) = w
   \<and> fst (SetSize S width height HintFixed (w, x)) = w
   \<and> fst (SetSize S width height HintCenter (w, x)) = w"
  by (simp add: SetSize_def HintNone_def HintFixed_def HintMin_def HintMax_def HintCenter_def
        Let_def split: prod.splits)

end
